theory Spec2Isabelle
  imports Main "HOL-Library.Word"
begin

unbundle bit_operations_syntax

section \<open>Go values shared by the three components\<close>

text \<open>
  Go's fixed-width integers are words; a signed one is read with \<open>sint\<close>. Go's \<open>int\<close> is
  taken at its 64-bit width. A byte slice is a list of bytes under \<open>option\<close>, \<open>None\<close> being
  the \<open>nil\<close> slice, which the decoder tells apart from an empty one. A returned pair
  \<open>(v, err)\<close> keeps Go's shape, with \<open>None\<close> for a \<open>nil\<close> pointer, slice or error; a call
  into a library whose value is read only when its error is \<open>nil\<close> returns a sum, with \<open>Inl\<close>
  for the error.
\<close>

type_synonym byte = "8 word"
type_synonym int32 = "32 word"
type_synonym uint32 = "32 word"
type_synonym int64 = "64 word"
type_synonym go_int = "64 word"
type_synonym bytes = "byte list option"

text \<open>The error codes of the sarama library: only \<open>ErrNoError\<close> is told apart by \<open>Fetch\<close>.\<close>

datatype KError = ErrNoError | ErrOffsetOutOfRange | ErrCode nat

text \<open>An \<open>error\<close> is made by \<open>errors.New\<close> from a text, or is a \<open>KError\<close>.\<close>

datatype error = Error string | KafkaError KError

section \<open>siesta/conn.go: the connection pool\<close>

record TCPAddr =
  addr_host :: string
  addr_port :: nat

record TCPConn =
  conn_fd :: nat
  conn_remote :: TCPAddr
  conn_keepAlive :: bool
  conn_keepAlivePeriod :: int64

text \<open>
  The network as \<open>connect\<close> sees it: \<open>net.ResolveTCPAddr\<close> and \<open>net.DialTCP\<close>, each
  returning an address or connection, or an error.
\<close>

record net =
  ResolveTCPAddr :: "string \<Rightarrow> error + TCPAddr"
  DialTCP :: "TCPAddr \<Rightarrow> error + TCPConn"

text \<open>
  The struct \<open>connectionPool\<close>. The mutex and the condition variable are not fields of the
  model: every body run under \<open>inLock\<close> is one atomic transition of the pool.
\<close>

record connectionPool =
  connectStr :: string
  size_p :: go_int
  conns :: go_int
  keepAlive :: bool
  keepAlivePeriod :: int64
  connections :: "TCPConn list"

definition newConnectionPool :: "string \<Rightarrow> go_int \<Rightarrow> bool \<Rightarrow> int64 \<Rightarrow> connectionPool" where
  "newConnectionPool cs sz ka kap =
     \<lparr>connectStr = cs, size_p = sz, conns = 0, keepAlive = ka,
      keepAlivePeriod = kap, connections = []\<rparr>"

definition connect :: "net \<Rightarrow> connectionPool \<Rightarrow> TCPConn option \<times> error option" where
  "connect nw this =
     (case ResolveTCPAddr nw (connectStr this) of
        Inl err \<Rightarrow> (None, Some err)
      | Inr addr \<Rightarrow>
          (case DialTCP nw addr of
             Inl err \<Rightarrow> (None, Some err)
           | Inr conn \<Rightarrow>
               (if keepAlive this
                then (Some (conn\<lparr>conn_keepAlive := keepAlive this,
                                 conn_keepAlivePeriod := keepAlivePeriod this\<rparr>), None)
                else (Some conn, None))))"

text \<open>
  \<open>Borrow\<close> waits on the condition variable while the pool is exhausted. A waiting
  caller holds no lock and has changed nothing, so the wait is the outcome \<open>Blocked\<close>
  with the pool as it was; after a wake-up the loop tests its condition again, which is
  \<open>Borrow\<close> taken anew on the pool of that moment.
\<close>

datatype borrow_outcome = Blocked | Returned "TCPConn option" "error option"

definition must_wait :: "connectionPool \<Rightarrow> bool" where
  "must_wait this \<longleftrightarrow> sint (size_p this) \<le> sint (conns this) \<and> length (connections this) = 0"

definition Borrow :: "net \<Rightarrow> connectionPool \<Rightarrow> borrow_outcome \<times> connectionPool" where
  "Borrow nw this =
     (if must_wait this then (Blocked, this)
      else (case connections this of
              conn # rest \<Rightarrow> (Returned (Some conn) None, this\<lparr>connections := rest\<rparr>)
            | [] \<Rightarrow>
                (case connect nw this of
                   (conn, Some err) \<Rightarrow> (Returned conn (Some err), this)
                 | (conn, None) \<Rightarrow> (Returned conn None, this\<lparr>conns := conns this + 1\<rparr>))))"

definition Return :: "TCPConn \<Rightarrow> connectionPool \<Rightarrow> connectionPool" where
  "Return conn this =
     (if int (length (connections this)) < sint (conns this)
      then this\<lparr>connections := connections this @ [conn]\<rparr>
      else this)"

text \<open>
  A history of the pool: the calls in the order in which they took the lock. Each
  \<open>Borrow\<close> comes with the network it met.
\<close>

datatype pool_call = CallBorrow net | CallReturn TCPConn

fun pool_step :: "connectionPool \<Rightarrow> pool_call \<Rightarrow> connectionPool" where
  "pool_step this (CallBorrow nw) = snd (Borrow nw this)"
| "pool_step this (CallReturn conn) = Return conn this"

definition pool_run :: "connectionPool \<Rightarrow> pool_call list \<Rightarrow> connectionPool" where
  "pool_run this calls = foldl pool_step this calls"

definition pool_inv :: "connectionPool \<Rightarrow> bool" where
  "pool_inv this \<longleftrightarrow>
     sint (conns this) \<le> sint (size_p this) \<and>
     int (length (connections this)) \<le> sint (conns this)"

section \<open>go_kafka_client/low_level_client.go: the fetch clients\<close>

subsection \<open>The types of the sarama library that the client reads\<close>

text \<open>
  A \<open>MessageBlock\<close> has an offset and a message; a message has a key, a value and,
  when it wraps a compressed batch, an inner message set (\<open>Set\<close>, a pointer: \<open>None\<close>
  is \<open>nil\<close>). The library's decoder allocates the message of every block, so the model
  holds the message itself.
\<close>

datatype sarama_Message =
  SaramaMessage (msg_Key: bytes) (msg_Value: bytes) (msg_Set: "sarama_MessageBlock list option")
and sarama_MessageBlock =
  MessageBlock (blk_Offset: int64) (blk_Msg: sarama_Message)

record FetchResponseBlock =
  Err :: KError
  MsgSet :: "sarama_MessageBlock list"

text \<open>
  \<open>Blocks\<close> is a Go map of maps; \<open>range\<close> visits its entries in an order the run time
  chooses. The model holds the entries as lists, in the order of the visit.
\<close>

record FetchResponse =
  Blocks :: "(string \<times> (int32 \<times> FetchResponseBlock) list) list"

record FetchRequest =
  MinBytes :: int32
  MaxWaitTime :: int32
  req_blocks :: "(string \<times> int32 \<times> int64 \<times> int32) list"

definition AddBlock :: "string \<Rightarrow> int32 \<Rightarrow> int64 \<Rightarrow> int32 \<Rightarrow> FetchRequest \<Rightarrow> FetchRequest" where
  "AddBlock topic partitionId fetchOffset maxBytes r =
     r\<lparr>req_blocks := req_blocks r @ [(topic, partitionId, fetchOffset, maxBytes)]\<rparr>"

datatype sarama_OffsetTime = LatestOffsets | EarliestOffset

text \<open>
  The sarama client and its brokers, as \<open>SaramaClient\<close> calls them: the leader of a
  partition (a broker id), a fetch sent to a broker, and an offset query.
\<close>

record sarama_Client =
  Leader :: "string \<Rightarrow> int32 \<Rightarrow> error + nat"
  Broker_Fetch :: "nat \<Rightarrow> string \<Rightarrow> FetchRequest \<Rightarrow> error + FetchResponse option"
  GetOffset :: "string \<Rightarrow> int32 \<Rightarrow> sarama_OffsetTime \<Rightarrow> error + int64"

record ConsumerConfig =
  Clientid :: string
  FetchMinBytes :: int32
  FetchWaitMaxMs :: int32
  FetchMessageMaxBytes :: int32

record Message =
  Key :: bytes
  Value :: bytes
  Topic :: string
  Partition :: int32
  Offset :: int64

subsection \<open>SaramaClient\<close>

text \<open>
  \<open>filterPartitionData\<close>: the loop runs over the messages with their index \<open>i\<close> and
  stops at the first one whose offset is not below the requested one.
\<close>

fun lowestCorrectIndex_loop :: "sarama_MessageBlock list \<Rightarrow> int64 \<Rightarrow> nat \<Rightarrow> nat \<Rightarrow> nat" where
  "lowestCorrectIndex_loop [] requestedOffset i lowestCorrectIndex = lowestCorrectIndex"
| "lowestCorrectIndex_loop (v # vs) requestedOffset i lowestCorrectIndex =
     (if blk_Offset v <s requestedOffset
      then lowestCorrectIndex_loop vs requestedOffset (i + 1) (i + 1)
      else lowestCorrectIndex)"

definition filterPartitionData :: "sarama_MessageBlock list \<Rightarrow> int64 \<Rightarrow> sarama_MessageBlock list" where
  "filterPartitionData messages requestedOffset =
     drop (lowestCorrectIndex_loop messages requestedOffset 0 0) messages"

definition message_of :: "sarama_MessageBlock \<Rightarrow> string \<Rightarrow> int32 \<Rightarrow> Message" where
  "message_of b topic partitionId =
     \<lparr>Key = msg_Key (blk_Msg b), Value = msg_Value (blk_Msg b),
      Topic = topic, Partition = partitionId, Offset = blk_Offset b\<rparr>"

fun collect_wrapped :: "sarama_MessageBlock list \<Rightarrow> string \<Rightarrow> int32 \<Rightarrow> Message list \<Rightarrow> Message list" where
  "collect_wrapped [] topic partitionId messages = messages"
| "collect_wrapped (wrapped # rest) topic partitionId messages =
     collect_wrapped rest topic partitionId (messages @ [message_of wrapped topic partitionId])"

fun collect_loop :: "sarama_MessageBlock list \<Rightarrow> string \<Rightarrow> int32 \<Rightarrow> Message list \<Rightarrow> Message list" where
  "collect_loop [] topic partitionId messages = messages"
| "collect_loop (message # rest) topic partitionId messages =
     (case msg_Set (blk_Msg message) of
        Some inner \<Rightarrow>
          collect_loop rest topic partitionId (collect_wrapped inner topic partitionId messages)
      | None \<Rightarrow>
          collect_loop rest topic partitionId (messages @ [message_of message topic partitionId]))"

definition collectMessages :: "sarama_MessageBlock list \<Rightarrow> string \<Rightarrow> int32 \<Rightarrow> Message list" where
  "collectMessages messages topic partitionId = collect_loop messages topic partitionId []"

text \<open>
  The two nested loops of \<open>Fetch\<close> over the response. A block with an error code leaves
  both loops at once (\<open>Inl\<close>: the error and the topic whose metadata is refreshed);
  otherwise the loop goes on with \<open>messages\<close>, which a non-empty block replaces.
\<close>

fun fetch_partitions ::
  "string \<Rightarrow> (int32 \<times> FetchResponseBlock) list \<Rightarrow> int64 \<Rightarrow> Message list \<Rightarrow>
     (error \<times> string) + Message list" where
  "fetch_partitions topic [] offset messages = Inr messages"
| "fetch_partitions topic ((partitionId, data) # rest) offset messages =
     (case Err data of
        ErrNoError \<Rightarrow>
          (if length (MsgSet data) > 0
           then fetch_partitions topic rest offset
                  (collectMessages (filterPartitionData (MsgSet data) offset) topic partitionId)
           else fetch_partitions topic rest offset messages)
      | _ \<Rightarrow> Inl (KafkaError (Err data), topic))"

fun fetch_topics ::
  "(string \<times> (int32 \<times> FetchResponseBlock) list) list \<Rightarrow> int64 \<Rightarrow> Message list \<Rightarrow>
     (error \<times> string) + Message list" where
  "fetch_topics [] offset messages = Inr messages"
| "fetch_topics ((topic, partitionAndData) # rest) offset messages =
     (case fetch_partitions topic partitionAndData offset messages of
        Inl early \<Rightarrow> Inl early
      | Inr messages' \<Rightarrow> fetch_topics rest offset messages')"

text \<open>
  \<open>Fetch\<close> returns the messages (\<open>None\<close> is the \<open>nil\<close> slice), the error, and the topics
  for which it called \<open>RefreshTopicMetadata\<close>, in order.
\<close>

definition fetchRequest_of :: "ConsumerConfig \<Rightarrow> string \<Rightarrow> int32 \<Rightarrow> int64 \<Rightarrow> FetchRequest" where
  "fetchRequest_of config topic partitionId offset =
     AddBlock topic partitionId offset (FetchMessageMaxBytes config)
       \<lparr>MinBytes = FetchMinBytes config, MaxWaitTime = FetchWaitMaxMs config, req_blocks = []\<rparr>"

definition SaramaClient_Fetch ::
  "ConsumerConfig \<Rightarrow> sarama_Client \<Rightarrow> string \<Rightarrow> int32 \<Rightarrow> int64 \<Rightarrow>
     (Message list option \<times> error option) \<times> string list" where
  "SaramaClient_Fetch config client topic partitionId offset =
     (case Leader client topic partitionId of
        Inl err \<Rightarrow> ((None, Some err), [topic])
      | Inr leader \<Rightarrow>
          (case Broker_Fetch client leader (Clientid config)
                  (fetchRequest_of config topic partitionId offset) of
             Inl err \<Rightarrow> ((None, Some err), [topic])
           | Inr None \<Rightarrow> ((Some [], None), [])
           | Inr (Some response) \<Rightarrow>
               (case fetch_topics (Blocks response) offset [] of
                  Inl (err, refreshed) \<Rightarrow> ((None, Some err), [refreshed])
                | Inr messages \<Rightarrow> ((Some messages, None), []))))"

definition SaramaClient_GetAvailableOffset ::
  "sarama_Client \<Rightarrow> string \<Rightarrow> int32 \<Rightarrow> string \<Rightarrow> int64 \<times> error option" where
  "SaramaClient_GetAvailableOffset client topic partitionId offsetTime =
     (let time = (if offsetTime = ''smallest'' then EarliestOffset else LatestOffsets)
      in case GetOffset client topic partitionId time of
           Inl err \<Rightarrow> (- 1, None)
         | Inr offset \<Rightarrow> (offset, None))"

subsection \<open>SiestaClient\<close>

datatype siesta_OffsetTime = LatestTime | EarliestTime

text \<open>The connector's offset query returns a Go pair, which the client hands on as it is.\<close>

record siesta_Connector =
  Connector_GetAvailableOffset ::
    "string \<Rightarrow> int32 \<Rightarrow> siesta_OffsetTime \<Rightarrow> int64 \<times> error option"

definition SiestaClient_GetAvailableOffset ::
  "siesta_Connector \<Rightarrow> string \<Rightarrow> int32 \<Rightarrow> string \<Rightarrow> int64 \<times> error option" where
  "SiestaClient_GetAvailableOffset connector topic partitionId offsetTime =
     (let time = (if offsetTime = ''smallest'' then EarliestTime else LatestTime)
      in Connector_GetAvailableOffset connector topic partitionId time)"

section \<open>go_kafka_client/avro_encoder_decoder.go: the Avro wire codec\<close>

subsection \<open>Values, schemas and the collaborators of the codec\<close>

text \<open>A run-time panic is an outcome of its own, apart from a returned error.\<close>

datatype panic = IndexOutOfRange | NilDereference | Panic string

datatype avro_type =
  avro_Null | avro_Boolean | avro_Int | avro_Long | avro_Float | avro_Double
| avro_String | avro_Bytes | avro_Record

text \<open>
  Modelled from the spec: the schema values of the go-avro library, of which the codec
  sees the interface \<open>avro.Schema\<close> only. The spec names 8 primitive kinds (null, boolean,
  int32, int64, float32, float64, string, byte-sequence) and a record schema with a name
  and named, typed fields. \<open>schema_Type\<close> is the method \<open>Type()\<close>, \<open>schema_GetName\<close> the
  method \<open>GetName()\<close>: the record type name for a record schema, the name of the type for
  a primitive one.
\<close>

datatype avro_Schema =
  NullSchema | BooleanSchema | IntSchema | LongSchema | FloatSchema | DoubleSchema
| StringSchema | BytesSchema
| RecordSchema string "(string \<times> avro_Schema) list"

fun schema_Type :: "avro_Schema \<Rightarrow> avro_type" where
  "schema_Type NullSchema = avro_Null"
| "schema_Type BooleanSchema = avro_Boolean"
| "schema_Type IntSchema = avro_Int"
| "schema_Type LongSchema = avro_Long"
| "schema_Type FloatSchema = avro_Float"
| "schema_Type DoubleSchema = avro_Double"
| "schema_Type StringSchema = avro_String"
| "schema_Type BytesSchema = avro_Bytes"
| "schema_Type (RecordSchema name fs) = avro_Record"

fun schema_GetName :: "avro_Schema \<Rightarrow> string" where
  "schema_GetName NullSchema = ''null''"
| "schema_GetName BooleanSchema = ''boolean''"
| "schema_GetName IntSchema = ''int''"
| "schema_GetName LongSchema = ''long''"
| "schema_GetName FloatSchema = ''float''"
| "schema_GetName DoubleSchema = ''double''"
| "schema_GetName StringSchema = ''string''"
| "schema_GetName BytesSchema = ''bytes''"
| "schema_GetName (RecordSchema name fs) = name"

text \<open>
  Modelled from the spec: \<open>avro.ParseSchema\<close> on the text \<open>{"type" : "t" }\<close> that
  \<open>createPrimitiveSchema\<close> formats, for the 8 primitive kinds; any other type name is a
  parse error.
\<close>

definition ParseSchema_type :: "string \<Rightarrow> error + avro_Schema" where
  "ParseSchema_type schemaType =
     (if schemaType = ''null'' then Inr NullSchema
      else if schemaType = ''boolean'' then Inr BooleanSchema
      else if schemaType = ''int'' then Inr IntSchema
      else if schemaType = ''long'' then Inr LongSchema
      else if schemaType = ''float'' then Inr FloatSchema
      else if schemaType = ''double'' then Inr DoubleSchema
      else if schemaType = ''string'' then Inr StringSchema
      else if schemaType = ''bytes'' then Inr BytesSchema
      else Inl (Error ''unknown type name''))"

text \<open>
  A value of type \<open>interface{}\<close>, by its dynamic type: the untyped \<open>nil\<close>, the types
  that \<open>getSchema\<close> names, and any other type (\<open>VOther\<close>, with the type's name). A
  \<open>*GenericRecord\<close> is a pointer: \<open>VRecord None\<close> is the typed nil pointer. A generic
  record has its field values and its schema, an interface value that may be \<open>nil\<close>.
  Floats are held as their bit patterns; the codec never computes with them.
\<close>

datatype go_value =
  VNil
| VBool bool
| VInt32 int32
| VInt64 int64
| VFloat32 "32 word"
| VFloat64 "64 word"
| VString string
| VBytes bytes
| VRecord "GenericRecord option"
| VOther string
and GenericRecord =
  GenericRecord (rec_fields: "(string \<times> go_value) list") (rec_schema: "avro_Schema option")

text \<open>
  The schema registry client, as the codec calls it. The registry is a remote service:
  the record holds what it answers at the time of the call.
\<close>

record SchemaRegistryClient =
  Register :: "string \<Rightarrow> avro_Schema option \<Rightarrow> error + int32"
  GetByID :: "int32 \<Rightarrow> error + avro_Schema option"

datatype registry_call = Call_Register string "avro_Schema option" | Call_GetByID int32

text \<open>
  The datum writer and reader of go-avro. \<open>Write\<close> gives the bytes it has put into the
  buffer and its error; \<open>Read\<close> gives the value decoded from the bytes, or an error.
\<close>

record avro_lib =
  GenericDatumWriter_Write :: "avro_Schema option \<Rightarrow> go_value \<Rightarrow> byte list \<times> error option"
  GenericDatumReader_Read :: "avro_Schema \<Rightarrow> byte list \<Rightarrow> error + go_value"

text \<open>
  \<open>encoding/binary\<close>: \<open>BigEndian.PutUint32\<close> on a fresh slice of 4 bytes, and
  \<open>BigEndian.Uint32\<close>, which reads \<open>b[3]\<close> first and so panics on a slice shorter than 4.
\<close>

definition PutUint32 :: "uint32 \<Rightarrow> byte list" where
  "PutUint32 v = [ucast (drop_bit 24 v), ucast (drop_bit 16 v), ucast (drop_bit 8 v), ucast v]"

definition Uint32 :: "byte list \<Rightarrow> panic + uint32" where
  "Uint32 b =
     (if length b < 4 then Inl IndexOutOfRange
      else Inr (ucast (b ! 3) OR push_bit 8 (ucast (b ! 2)) OR push_bit 16 (ucast (b ! 1))
                OR push_bit 24 (ucast (b ! 0))))"

subsection \<open>KafkaAvroEncoder\<close>

definition magic_bytes :: "byte list" where
  "magic_bytes = [0]"

record KafkaAvroEncoder =
  primitiveSchemas :: "string \<rightharpoonup> avro_Schema"
  enc_schemaRegistry :: SchemaRegistryClient

definition createPrimitiveSchema :: "string \<Rightarrow> panic + avro_Schema" where
  "createPrimitiveSchema schemaType =
     (case ParseSchema_type schemaType of
        Inl err \<Rightarrow> Inl (Panic ''createPrimitiveSchema'')
      | Inr schema \<Rightarrow> Inr schema)"

text \<open>The assignments \<open>primitiveSchemas[key] = createPrimitiveSchema(t)\<close>, one after another.\<close>

fun primitive_entries ::
  "(string \<times> string) list \<Rightarrow> (string \<rightharpoonup> avro_Schema) \<Rightarrow> panic + (string \<rightharpoonup> avro_Schema)" where
  "primitive_entries [] m = Inr m"
| "primitive_entries ((key, schemaType) # rest) m =
     (case createPrimitiveSchema schemaType of
        Inl p \<Rightarrow> Inl p
      | Inr schema \<Rightarrow> primitive_entries rest (m(key \<mapsto> schema)))"

definition NewKafkaAvroEncoder :: "SchemaRegistryClient \<Rightarrow> panic + KafkaAvroEncoder" where
  "NewKafkaAvroEncoder registry =
     (case primitive_entries
             [(''Null'', ''null''), (''Boolean'', ''boolean''), (''Int'', ''int''),
              (''Long'', ''long''), (''Float'', ''float''), (''Double'', ''double''),
              (''String'', ''string''), (''Bytes'', ''bytes'')] Map.empty of
        Inl p \<Rightarrow> Inl p
      | Inr m \<Rightarrow> Inr \<lparr>primitiveSchemas = m, enc_schemaRegistry = registry\<rparr>)"

text \<open>
  \<open>getSchema\<close>: a map lookup gives the \<open>nil\<close> schema for a missing key; the method
  \<open>Schema()\<close> reads a field of the record and so fails on the nil pointer.
\<close>

fun getSchema :: "KafkaAvroEncoder \<Rightarrow> go_value \<Rightarrow> panic + avro_Schema option" where
  "getSchema this VNil = Inr (primitiveSchemas this ''Null'')"
| "getSchema this (VBool t) = Inr (primitiveSchemas this ''Boolean'')"
| "getSchema this (VInt32 t) = Inr (primitiveSchemas this ''Int'')"
| "getSchema this (VInt64 t) = Inr (primitiveSchemas this ''Long'')"
| "getSchema this (VFloat32 t) = Inr (primitiveSchemas this ''Float'')"
| "getSchema this (VFloat64 t) = Inr (primitiveSchemas this ''Double'')"
| "getSchema this (VString t) = Inr (primitiveSchemas this ''String'')"
| "getSchema this (VBytes t) = Inr (primitiveSchemas this ''Bytes'')"
| "getSchema this (VRecord None) = Inl NilDereference"
| "getSchema this (VRecord (Some t)) = Inr (rec_schema t)"
| "getSchema this (VOther t) =
     Inl (Panic ''Unsupported Avro type. Supported types are nil, bool, int32, int64, float32, float64, string, []byte and *GenericRecord'')"

text \<open>
  \<open>Encode\<close> returns the pair \<open>(bytes, error)\<close> or panics, and the model lists the calls
  it made to the registry. \<open>record.Schema().GetName()\<close> is a method call on an interface
  value and panics when the schema is \<open>nil\<close>. The error of \<open>writer.Write\<close> is dropped by
  the source; the buffer holds whatever was written. The conversion \<open>uint32(id)\<close> keeps
  the 32 bits.
\<close>

fun Encode ::
  "avro_lib \<Rightarrow> KafkaAvroEncoder \<Rightarrow> go_value \<Rightarrow>
     (panic + (bytes \<times> error option)) \<times> registry_call list" where
  "Encode lib this (VRecord None) = (Inr (None, None), [])"
| "Encode lib this (VRecord (Some record)) =
     (case rec_schema record of
        None \<Rightarrow> (Inl NilDereference, [])
      | Some named \<Rightarrow>
          (let subject = schema_GetName named @ ''-value''
           in case getSchema this (VRecord (Some record)) of
                Inl p \<Rightarrow> (Inl p, [])
              | Inr schema \<Rightarrow>
                  (case Register (enc_schemaRegistry this) subject schema of
                     Inl err \<Rightarrow> (Inr (None, Some err), [Call_Register subject schema])
                   | Inr schemaId \<Rightarrow>
                       (Inr (Some (magic_bytes @ PutUint32 schemaId @
                                   fst (GenericDatumWriter_Write lib schema (VRecord (Some record)))),
                             None),
                        [Call_Register subject schema]))))"
| "Encode lib this obj = (Inr (None, Some (Error ''*GenericRecord is expected'')), [])"

subsection \<open>KafkaAvroDecoder\<close>

record KafkaAvroDecoder =
  dec_schemaRegistry :: SchemaRegistryClient

definition NewKafkaAvroDecoder :: "SchemaRegistryClient \<Rightarrow> KafkaAvroDecoder" where
  "NewKafkaAvroDecoder registry = \<lparr>dec_schemaRegistry = registry\<rparr>"

text \<open>
  \<open>Decode\<close>: \<open>bytes[0]\<close> panics on an empty slice, \<open>Uint32(bytes[1:])\<close> on fewer than 4
  bytes after the first; once it has passed, \<open>bytes[5:]\<close> is in range. The conversion
  \<open>int32(...)\<close> keeps the 32 bits. \<open>schema.Type()\<close> is a method call on an interface value.
\<close>

fun Decode ::
  "avro_lib \<Rightarrow> KafkaAvroDecoder \<Rightarrow> bytes \<Rightarrow>
     (panic + (go_value \<times> error option)) \<times> registry_call list" where
  "Decode lib this None = (Inr (VNil, None), [])"
| "Decode lib this (Some []) = (Inl IndexOutOfRange, [])"
| "Decode lib this (Some (b0 # rest)) =
     (if b0 \<noteq> 0 then (Inr (VNil, Some (Error ''Unknown magic byte!'')), [])
      else (case Uint32 rest of
              Inl p \<Rightarrow> (Inl p, [])
            | Inr schemaId \<Rightarrow>
                (case GetByID (dec_schemaRegistry this) schemaId of
                   Inl err \<Rightarrow> (Inr (VNil, Some err), [Call_GetByID schemaId])
                 | Inr None \<Rightarrow> (Inl NilDereference, [Call_GetByID schemaId])
                 | Inr (Some schema) \<Rightarrow>
                     (if schema_Type schema = avro_Bytes
                      then (Inr (VBytes (Some (drop 5 (b0 # rest))), None), [Call_GetByID schemaId])
                      else (case GenericDatumReader_Read lib schema (drop 5 (b0 # rest)) of
                              Inl err \<Rightarrow> (Inr (VNil, Some err), [Call_GetByID schemaId])
                            | Inr v \<Rightarrow> (Inr (v, None), [Call_GetByID schemaId]))))))"

section \<open>Reference definitions and sample inputs\<close>

text \<open>
  The unwrap step in the words of the specification: an entry that wraps an inner batch
  gives one record per inner entry, with the inner entry's offset, key and value; any
  other entry gives one record with its own.
\<close>

definition spec_unwrap_entry :: "sarama_MessageBlock \<Rightarrow> string \<Rightarrow> int32 \<Rightarrow> Message list" where
  "spec_unwrap_entry entry topic partitionId =
     (case msg_Set (blk_Msg entry) of
        Some inner \<Rightarrow>
          map (\<lambda>w. \<lparr>Key = msg_Key (blk_Msg w), Value = msg_Value (blk_Msg w),
                     Topic = topic, Partition = partitionId, Offset = blk_Offset w\<rparr>) inner
      | None \<Rightarrow>
          [\<lparr>Key = msg_Key (blk_Msg entry), Value = msg_Value (blk_Msg entry),
            Topic = topic, Partition = partitionId, Offset = blk_Offset entry\<rparr>])"

text \<open>A network that resolves and dials, one that does not resolve, one that does not dial.\<close>

definition net_up :: net where
  "net_up =
     \<lparr>ResolveTCPAddr = (\<lambda>s. Inr \<lparr>addr_host = s, addr_port = 9092\<rparr>),
      DialTCP = (\<lambda>a. Inr \<lparr>conn_fd = 3, conn_remote = a, conn_keepAlive = False,
                           conn_keepAlivePeriod = 0\<rparr>)\<rparr>"

definition net_no_host :: net where
  "net_no_host =
     \<lparr>ResolveTCPAddr = (\<lambda>s. Inl (Error ''no such host'')),
      DialTCP = (\<lambda>a. Inl (Error ''unreachable''))\<rparr>"

definition net_refused :: net where
  "net_refused =
     \<lparr>ResolveTCPAddr = (\<lambda>s. Inr \<lparr>addr_host = s, addr_port = 9092\<rparr>),
      DialTCP = (\<lambda>a. Inl (Error ''connection refused''))\<rparr>"

definition conn_a :: TCPConn where
  "conn_a =
     \<lparr>conn_fd = 3, conn_remote = \<lparr>addr_host = ''broker'', addr_port = 9092\<rparr>,
      conn_keepAlive = False, conn_keepAlivePeriod = 0\<rparr>"

text \<open>Batch entries: a plain one, and a wrapper around an inner batch.\<close>

definition plain_entry :: "int64 \<Rightarrow> sarama_MessageBlock" where
  "plain_entry off = MessageBlock off (SaramaMessage None (Some [1]) None)"

definition wrapper_entry :: "int64 \<Rightarrow> sarama_MessageBlock list \<Rightarrow> sarama_MessageBlock" where
  "wrapper_entry off inner = MessageBlock off (SaramaMessage None None (Some inner))"

definition plain_record :: "int64 \<Rightarrow> string \<Rightarrow> int32 \<Rightarrow> Message" where
  "plain_record off topic partitionId =
     \<lparr>Key = None, Value = Some [1], Topic = topic, Partition = partitionId, Offset = off\<rparr>"

text \<open>
  A client whose leader lookup succeeds and whose broker answers every fetch with one
  block, free of error, for the topic \<open>''events''\<close> and partition 0.
\<close>

definition client_answering :: "sarama_MessageBlock list \<Rightarrow> sarama_Client" where
  "client_answering batch =
     \<lparr>Leader = (\<lambda>t p. Inr 1),
      Broker_Fetch = (\<lambda>b c r. Inr (Some \<lparr>Blocks = [(''events'', [(0, \<lparr>Err = ErrNoError, MsgSet = batch\<rparr>)])]\<rparr>)),
      GetOffset = (\<lambda>t p time. Inr 0)\<rparr>"

definition config_a :: ConsumerConfig where
  "config_a =
     \<lparr>Clientid = ''consumer'', FetchMinBytes = 1, FetchWaitMaxMs = 100,
      FetchMessageMaxBytes = 1048576\<rparr>"

text \<open>
  The test of the type switch in \<open>Encode\<close>: whether the dynamic type of the value is
  \<open>*GenericRecord\<close>.
\<close>

fun is_GenericRecord :: "go_value \<Rightarrow> bool" where
  "is_GenericRecord (VRecord r) = True"
| "is_GenericRecord v = False"

text \<open>
  A record of type \<open>User\<close> with a string field and an int field, a registry that gives
  the id 1 to its schema under the subject \<open>User-value\<close> and knows no other schema, and a
  datum writer and reader that hold the Avro binary form of this one record (the length
  and the text of \<open>alice\<close>, then 30, both numbers in zig-zag form).
\<close>

definition user_schema :: avro_Schema where
  "user_schema = RecordSchema ''User'' [(''name'', StringSchema), (''age'', IntSchema)]"

definition alice :: GenericRecord where
  "alice = GenericRecord [(''name'', VString ''alice''), (''age'', VInt32 30)] (Some user_schema)"

definition alice_payload :: "byte list" where
  "alice_payload = [0x0A, 0x61, 0x6C, 0x69, 0x63, 0x65, 0x3C]"

definition registry_a :: SchemaRegistryClient where
  "registry_a =
     \<lparr>Register = (\<lambda>subject schema.
         if subject = ''User-value'' \<and> schema = Some user_schema then Inr 1
         else Inl (Error ''registry unavailable'')),
      GetByID = (\<lambda>schemaId.
         if schemaId = 1 then Inr (Some user_schema) else Inl (Error ''schema not found''))\<rparr>"

definition avro_a :: avro_lib where
  "avro_a =
     \<lparr>GenericDatumWriter_Write = (\<lambda>schema v.
         if schema = Some user_schema \<and> v = VRecord (Some alice) then (alice_payload, None)
         else ([], Some (Error ''value does not fit the schema''))),
      GenericDatumReader_Read = (\<lambda>schema b.
         if schema = user_schema \<and> b = alice_payload then Inr (VRecord (Some alice))
         else Inl (Error ''malformed payload''))\<rparr>"

definition encoder_a :: KafkaAvroEncoder where
  "encoder_a =
     \<lparr>primitiveSchemas =
        [''Null'' \<mapsto> NullSchema, ''Boolean'' \<mapsto> BooleanSchema, ''Int'' \<mapsto> IntSchema,
         ''Long'' \<mapsto> LongSchema, ''Float'' \<mapsto> FloatSchema, ''Double'' \<mapsto> DoubleSchema,
         ''String'' \<mapsto> StringSchema, ''Bytes'' \<mapsto> BytesSchema],
      enc_schemaRegistry = registry_a\<rparr>"

definition decoder_a :: KafkaAvroDecoder where
  "decoder_a = NewKafkaAvroDecoder registry_a"













section \<open>The connection pool: capacity and failed connects\<close>

text \<open>
  The increment of \<open>conns\<close> is guarded by \<open>conns < size\<close>, so it never wraps around.
\<close>

lemma sint_succ_below:
  "sint (c::64 word) < sint (s::64 word) \<Longrightarrow> sint (c + 1) = sint c + 1"
proof -
  assume a: "sint c < sint s"
  have "sint s < 2 ^ 63" using sint_lt [of s] by simp
  moreover have "- (2 ^ 63) \<le> sint c" using sint_ge [of c] by simp
  ultimately have "- (2 ^ 63) \<le> sint c + 1" "sint c + 1 < 2 ^ 63" using a by arith+
  then show ?thesis
    by (simp add: sint_word_add signed_take_bit_int_eq_self)
qed

lemma connect_resolve_fails:
  "ResolveTCPAddr nw (connectStr p) = Inl err \<Longrightarrow> connect nw p = (None, Some err)"
  by (simp add: connect_def)

lemma connect_dial_fails:
  "ResolveTCPAddr nw (connectStr p) = Inr addr \<Longrightarrow> DialTCP nw addr = Inl err \<Longrightarrow>
   connect nw p = (None, Some err)"
  by (simp add: connect_def)

lemma Return_inv: "pool_inv p \<Longrightarrow> pool_inv (Return c p)"
  by (simp add: pool_inv_def Return_def)

lemma Borrow_inv: "pool_inv p \<Longrightarrow> pool_inv (snd (Borrow nw p))"
  by (auto simp: pool_inv_def Borrow_def must_wait_def sint_succ_below [of _ "size_p p"]
      split: list.splits prod.splits option.splits)

lemma pool_run_inv: "pool_inv p \<Longrightarrow> pool_inv (pool_run p calls)"
  unfolding pool_run_def
proof (induction calls arbitrary: p)
  case Nil
  then show ?case by simp
next
  case (Cons c cs)
  have "pool_inv (pool_step p c)"
    using Cons.prems by (cases c) (simp_all add: Return_inv Borrow_inv)
  then show ?case using Cons.IH by simp
qed

lemma newConnectionPool_inv: "0 \<le> sint sz \<Longrightarrow> pool_inv (newConnectionPool cs sz ka kap)"
  by (simp add: pool_inv_def newConnectionPool_def)

lemma Borrow_conns_changes:
  assumes "conns (snd (Borrow nw p)) \<noteq> conns p"
  shows "sint (conns p) < sint (size_p p) \<and> connections p = [] \<and> snd (connect nw p) = None
         \<and> snd (Borrow nw p) = p\<lparr>conns := conns p + 1\<rparr>"
  using assms
  by (auto simp: Borrow_def must_wait_def split: if_splits list.splits prod.splits option.splits)

lemma Return_connections_changes:
  assumes "connections (Return c p) \<noteq> connections p"
  shows "int (length (connections p)) < sint (conns p)
         \<and> Return c p = p\<lparr>connections := connections p @ [c]\<rparr>"
  using assms by (auto simp: Return_def split: if_splits)

lemma Borrow_net_up_fresh:
  "Borrow net_up (newConnectionPool cs 1 False 0)
     = (Returned (Some \<lparr>conn_fd = 3, conn_remote = \<lparr>addr_host = cs, addr_port = 9092\<rparr>,
                         conn_keepAlive = False, conn_keepAlivePeriod = 0\<rparr>) None,
        \<lparr>connectStr = cs, size_p = 1, conns = 1, keepAlive = False,
         keepAlivePeriod = 0, connections = []\<rparr>)"
  by (simp add: Borrow_def must_wait_def newConnectionPool_def connect_def net_up_def)

text \<open>
  Claim C1, for a pool created with a capacity that is not negative: after every history
  of \<open>Borrow\<close> and \<open>Return\<close> calls the pool has \<open>conns \<le> size\<close> and
  \<open>len(connections) \<le> conns\<close>. \<open>Borrow\<close> changes \<open>conns\<close> only by adding one, and only
  when \<open>conns < size\<close>, no connection is idle and \<open>connect\<close> gave no error; \<open>Return\<close>
  changes the idle queue only by appending the connection, and only when
  \<open>len(connections) < conns\<close>. The history is any list of calls, so the invariant holds
  after each of its prefixes, a double \<open>Return\<close> included.
\<close>


theorem pool_capacity_invariant:
  assumes "0 \<le> sint sz"
  shows "pool_inv (pool_run (newConnectionPool cs sz ka kap) calls)
       \<and> (conns (snd (Borrow nw p)) \<noteq> conns p \<longrightarrow>
            sint (conns p) < sint (size_p p) \<and> connections p = [] \<and> snd (connect nw p) = None
            \<and> snd (Borrow nw p) = p\<lparr>conns := conns p + 1\<rparr>)
       \<and> (connections (Return c q) \<noteq> connections q \<longrightarrow>
            int (length (connections q)) < sint (conns q)
            \<and> Return c q = q\<lparr>connections := connections q @ [c]\<rparr>)"
proof (intro conjI)
  show "pool_inv (pool_run (newConnectionPool cs sz ka kap) calls)"
    using assms by (simp add: pool_run_inv newConnectionPool_inv)
next
  show "conns (snd (Borrow nw p)) \<noteq> conns p \<longrightarrow>
          sint (conns p) < sint (size_p p) \<and> connections p = [] \<and> snd (connect nw p) = None
          \<and> snd (Borrow nw p) = p\<lparr>conns := conns p + 1\<rparr>"
    by (rule impI) (rule Borrow_conns_changes)
next
  show "connections (Return c q) \<noteq> connections q \<longrightarrow>
          int (length (connections q)) < sint (conns q)
          \<and> Return c q = q\<lparr>connections := connections q @ [c]\<rparr>"
    by (rule impI) (rule Return_connections_changes)
qed

text \<open>
  The theorem at capacity 1, on a history with a \<open>Borrow\<close> that dials and a connection
  returned twice.
\<close>

theorem pool_capacity_invariant_witness:
  "0 \<le> sint (1 :: go_int)
   \<and> pool_inv (pool_run (newConnectionPool ''broker:9092'' 1 False 0)
                 [CallBorrow net_up, CallReturn conn_a, CallReturn conn_a])
   \<and> conns (snd (Borrow net_up (newConnectionPool ''broker:9092'' 1 False 0)))
       \<noteq> conns (newConnectionPool ''broker:9092'' 1 False 0)
   \<and> sint (conns (newConnectionPool ''broker:9092'' 1 False 0))
       < sint (size_p (newConnectionPool ''broker:9092'' 1 False 0))
   \<and> connections (Return conn_a (snd (Borrow net_up (newConnectionPool ''broker:9092'' 1 False 0))))
       \<noteq> connections (snd (Borrow net_up (newConnectionPool ''broker:9092'' 1 False 0)))
   \<and> int (length (connections (snd (Borrow net_up (newConnectionPool ''broker:9092'' 1 False 0)))))
       < sint (conns (snd (Borrow net_up (newConnectionPool ''broker:9092'' 1 False 0))))"
proof -
  let ?p0 = "newConnectionPool ''broker:9092'' 1 False 0"
  let ?p1 = "snd (Borrow net_up ?p0)"
  have h: "0 \<le> sint (1 :: go_int)" by simp
  have b: "conns ?p1 \<noteq> conns ?p0"
    by (simp add: Borrow_net_up_fresh) (simp add: newConnectionPool_def)
  have r: "connections (Return conn_a ?p1) \<noteq> connections ?p1"
    by (simp add: Borrow_net_up_fresh Return_def)
  note t = pool_capacity_invariant [OF h, of "''broker:9092''" False 0
      "[CallBorrow net_up, CallReturn conn_a, CallReturn conn_a]" net_up ?p0 conn_a ?p1]
  have i: "pool_inv (pool_run ?p0 [CallBorrow net_up, CallReturn conn_a, CallReturn conn_a])"
    by (rule conjunct1 [OF t])
  have c: "sint (conns ?p0) < sint (size_p ?p0)"
    by (rule conjunct1 [OF mp [OF conjunct1 [OF conjunct2 [OF t]] b]])
  have d: "int (length (connections ?p1)) < sint (conns ?p1)"
    by (rule conjunct1 [OF mp [OF conjunct2 [OF conjunct2 [OF t]] r]])
  from h i b c r d show ?thesis by (intro conjI)
qed

text \<open>
  \<open>newConnectionPool\<close> takes any \<open>int\<close>. With the capacity \<open>-1\<close> the pool starts at
  \<open>conns = 0\<close>, above its capacity, and a \<open>Return\<close> leaves it there.
\<close>

theorem pool_negative_capacity_counterexample:
  "\<not> pool_inv (pool_run (newConnectionPool ''broker:9092'' (- 1) False 0) [CallReturn conn_a])"
  by (simp add: pool_inv_def pool_run_def Return_def newConnectionPool_def)

text \<open>
  Claim C8: when \<open>Borrow\<close> goes on to open a connection (it need not wait and no
  connection is idle) and the resolve or the dial fails, it returns that error with no
  connection, and the pool is as it was: \<open>conns\<close> and the idle queue are unchanged.
\<close>

theorem Borrow_failed_connect_keeps_pool:
  assumes "\<not> must_wait p" and "connections p = []"
    and "ResolveTCPAddr nw (connectStr p) = Inl err
         \<or> (\<exists>addr. ResolveTCPAddr nw (connectStr p) = Inr addr \<and> DialTCP nw addr = Inl err)"
  shows "Borrow nw p = (Returned None (Some err), p)"
proof -
  from assms(3) have "connect nw p = (None, Some err)"
  proof
    assume "ResolveTCPAddr nw (connectStr p) = Inl err"
    then show ?thesis by (rule connect_resolve_fails)
  next
    assume "\<exists>addr. ResolveTCPAddr nw (connectStr p) = Inr addr \<and> DialTCP nw addr = Inl err"
    then obtain addr where "ResolveTCPAddr nw (connectStr p) = Inr addr"
      and "DialTCP nw addr = Inl err" by auto
    then show ?thesis by (rule connect_dial_fails)
  qed
  then show ?thesis using assms(1,2) by (simp add: Borrow_def)
qed

text \<open>The theorem on a fresh pool of capacity 2, once with a refused dial, once with a failed resolve.\<close>

theorem Borrow_failed_connect_keeps_pool_witness:
  "\<not> must_wait (newConnectionPool ''broker:9092'' 2 True 30)
   \<and> connections (newConnectionPool ''broker:9092'' 2 True 30) = []
   \<and> ResolveTCPAddr net_refused (connectStr (newConnectionPool ''broker:9092'' 2 True 30))
       = Inr \<lparr>addr_host = ''broker:9092'', addr_port = 9092\<rparr>
   \<and> DialTCP net_refused \<lparr>addr_host = ''broker:9092'', addr_port = 9092\<rparr>
       = Inl (Error ''connection refused'')
   \<and> Borrow net_refused (newConnectionPool ''broker:9092'' 2 True 30)
       = (Returned None (Some (Error ''connection refused'')),
          newConnectionPool ''broker:9092'' 2 True 30)
   \<and> ResolveTCPAddr net_no_host (connectStr (newConnectionPool ''broker:9092'' 2 True 30))
       = Inl (Error ''no such host'')
   \<and> Borrow net_no_host (newConnectionPool ''broker:9092'' 2 True 30)
       = (Returned None (Some (Error ''no such host'')),
          newConnectionPool ''broker:9092'' 2 True 30)"
proof -
  let ?p = "newConnectionPool ''broker:9092'' 2 True 30"
  let ?a = "\<lparr>addr_host = ''broker:9092'', addr_port = 9092\<rparr>"
  have a: "\<not> must_wait ?p" by (simp add: must_wait_def newConnectionPool_def)
  have b: "connections ?p = []" by (simp add: newConnectionPool_def)
  have c: "ResolveTCPAddr net_refused (connectStr ?p) = Inr ?a"
    by (simp add: net_refused_def newConnectionPool_def)
  have d: "DialTCP net_refused ?a = Inl (Error ''connection refused'')"
    by (simp add: net_refused_def)
  have e: "ResolveTCPAddr net_no_host (connectStr ?p) = Inl (Error ''no such host'')"
    by (simp add: net_no_host_def)
  have "\<exists>addr. ResolveTCPAddr net_refused (connectStr ?p) = Inr addr
               \<and> DialTCP net_refused addr = Inl (Error ''connection refused'')"
    using c d by (intro exI [of _ ?a] conjI)
  then have f: "Borrow net_refused ?p = (Returned None (Some (Error ''connection refused'')), ?p)"
    by (intro Borrow_failed_connect_keeps_pool [OF a b] disjI2)
  have g: "Borrow net_no_host ?p = (Returned None (Some (Error ''no such host'')), ?p)"
    using e by (intro Borrow_failed_connect_keeps_pool [OF a b] disjI1)
  from a b c d f e g show ?thesis by (intro conjI)
qed

section \<open>The full-protocol fetch: offset correction and unwrapping\<close>


lemma lowestCorrectIndex_loop_takeWhile:
  "lowestCorrectIndex_loop vs r i i = i + length (takeWhile (\<lambda>v. blk_Offset v <s r) vs)"
  by (induction vs arbitrary: i) simp_all

lemma filterPartitionData_dropWhile:
  "filterPartitionData vs r = dropWhile (\<lambda>v. blk_Offset v <s r) vs"
  by (simp add: filterPartitionData_def lowestCorrectIndex_loop_takeWhile [of vs r 0, simplified]
      dropWhile_eq_drop)

lemma dropWhile_sorted_filter:
  "sorted_wrt (\<lambda>a b. blk_Offset a \<le>s blk_Offset b) vs \<Longrightarrow>
   dropWhile (\<lambda>v. blk_Offset v <s r) vs = filter (\<lambda>v. \<not> blk_Offset v <s r) vs"
proof (induction vs)
  case Nil
  then show ?case by simp
next
  case (Cons v vs)
  show ?case
  proof (cases "blk_Offset v <s r")
    case True
    then show ?thesis using Cons by simp
  next
    case False
    have "\<forall>w \<in> set vs. \<not> blk_Offset w <s r"
      using Cons.prems False by (auto simp: word_sless_alt word_sle_eq)
    then have "filter (\<lambda>v. \<not> blk_Offset v <s r) vs = vs" by (simp add: filter_id_conv)
    then show ?thesis using False by simp
  qed
qed

lemma collect_wrapped_eq:
  "collect_wrapped ws t p acc = acc @ map (\<lambda>w. message_of w t p) ws"
  by (induction ws arbitrary: acc) simp_all

lemma collect_loop_eq:
  "collect_loop ms t p acc = acc @ concat (map (\<lambda>m. spec_unwrap_entry m t p) ms)"
  by (induction ms arbitrary: acc)
     (simp_all add: collect_wrapped_eq spec_unwrap_entry_def message_of_def split: option.splits)

lemma collectMessages_concat:
  "collectMessages ms t p = concat (map (\<lambda>m. spec_unwrap_entry m t p) ms)"
  by (simp add: collectMessages_def collect_loop_eq)

lemma Fetch_single_block:
  assumes "Leader client topic pid = Inr leader"
    and "Broker_Fetch client leader (Clientid config) (fetchRequest_of config topic pid offset)
           = Inr (Some \<lparr>Blocks = [(t, [(p, \<lparr>Err = ErrNoError, MsgSet = vs\<rparr>)])]\<rparr>)"
    and "vs \<noteq> []"
  shows "SaramaClient_Fetch config client topic pid offset =
           ((Some (collectMessages (filterPartitionData vs offset) t p), None), [])"
  using assms by (simp add: SaramaClient_Fetch_def)

lemma Fetch_client_answering:
  "batch \<noteq> [] \<Longrightarrow>
   SaramaClient_Fetch config_a (client_answering batch) ''events'' 0 r =
     ((Some (collectMessages (filterPartitionData batch r) ''events'' 0), None), [])"
  by (rule Fetch_single_block [where leader = 1]) (simp_all add: client_answering_def)

lemma spec_unwrap_plain: "spec_unwrap_entry (plain_entry off) t p = [plain_record off t p]"
  by (simp add: spec_unwrap_entry_def plain_entry_def plain_record_def)

lemma spec_unwrap_wrapper:
  "spec_unwrap_entry (wrapper_entry off inner) t p =
     map (\<lambda>w. \<lparr>Key = msg_Key (blk_Msg w), Value = msg_Value (blk_Msg w),
                Topic = t, Partition = p, Offset = blk_Offset w\<rparr>) inner"
  by (simp add: spec_unwrap_entry_def wrapper_entry_def)

lemma blk_Offset_wrapper_entry: "blk_Offset (wrapper_entry off inner) = off"
  by (simp add: wrapper_entry_def)

lemma blk_Offset_plain_entry: "blk_Offset (plain_entry off) = off"
  by (simp add: plain_entry_def)

text \<open>
  Claim C2, for what \<open>filterPartitionData\<close> does: it drops the leading entries whose
  offset is below the requested one and keeps everything from the first entry at or above
  it. On a batch whose offsets do not decrease these are exactly the entries below the
  requested offset, and all others are kept. \<open>Fetch\<close>, answered with one block free of
  error and not empty, returns the records collected from the batch so corrected; on the
  offsets 5, 6, 7, 8 with 7 requested it returns the records at 7 and 8.
\<close>

theorem Fetch_offset_correction:
  "filterPartitionData vs r = dropWhile (\<lambda>v. blk_Offset v <s r) vs
   \<and> (sorted_wrt (\<lambda>a b. blk_Offset a \<le>s blk_Offset b) vs \<longrightarrow>
        filterPartitionData vs r = filter (\<lambda>v. \<not> blk_Offset v <s r) vs)
   \<and> (Leader client topic pid = Inr leader
        \<and> Broker_Fetch client leader (Clientid config) (fetchRequest_of config topic pid r)
            = Inr (Some \<lparr>Blocks = [(t, [(p, \<lparr>Err = ErrNoError, MsgSet = vs\<rparr>)])]\<rparr>)
        \<and> vs \<noteq> [] \<longrightarrow>
        SaramaClient_Fetch config client topic pid r =
          ((Some (collectMessages (dropWhile (\<lambda>v. blk_Offset v <s r) vs) t p), None), []))
   \<and> SaramaClient_Fetch config_a
        (client_answering [plain_entry 5, plain_entry 6, plain_entry 7, plain_entry 8])
        ''events'' 0 7
      = ((Some [plain_record 7 ''events'' 0, plain_record 8 ''events'' 0], None), [])"
proof (intro conjI impI)
  show "filterPartitionData vs r = dropWhile (\<lambda>v. blk_Offset v <s r) vs"
    by (rule filterPartitionData_dropWhile)
next
  assume "sorted_wrt (\<lambda>a b. blk_Offset a \<le>s blk_Offset b) vs"
  then show "filterPartitionData vs r = filter (\<lambda>v. \<not> blk_Offset v <s r) vs"
    by (simp add: filterPartitionData_dropWhile dropWhile_sorted_filter)
next
  assume "Leader client topic pid = Inr leader
        \<and> Broker_Fetch client leader (Clientid config) (fetchRequest_of config topic pid r)
            = Inr (Some \<lparr>Blocks = [(t, [(p, \<lparr>Err = ErrNoError, MsgSet = vs\<rparr>)])]\<rparr>)
        \<and> vs \<noteq> []"
  then show "SaramaClient_Fetch config client topic pid r =
          ((Some (collectMessages (dropWhile (\<lambda>v. blk_Offset v <s r) vs) t p), None), [])"
    by (simp add: Fetch_single_block filterPartitionData_dropWhile)
next
  show "SaramaClient_Fetch config_a
        (client_answering [plain_entry 5, plain_entry 6, plain_entry 7, plain_entry 8])
        ''events'' 0 7
      = ((Some [plain_record 7 ''events'' 0, plain_record 8 ''events'' 0], None), [])"
    by (simp add: Fetch_client_answering filterPartitionData_dropWhile blk_Offset_plain_entry
        collectMessages_concat spec_unwrap_plain)
qed

text \<open>The theorem on the batch with offsets 5, 6, 7, 8 and the requested offset 7.\<close>

theorem Fetch_offset_correction_witness:
  "sorted_wrt (\<lambda>a b. blk_Offset a \<le>s blk_Offset b)
     [plain_entry 5, plain_entry 6, plain_entry 7, plain_entry 8]
   \<and> filterPartitionData [plain_entry 5, plain_entry 6, plain_entry 7, plain_entry 8] 7
       = filter (\<lambda>v. \<not> blk_Offset v <s 7) [plain_entry 5, plain_entry 6, plain_entry 7, plain_entry 8]
   \<and> filterPartitionData [plain_entry 5, plain_entry 6, plain_entry 7, plain_entry 8] 7
       = [plain_entry 7, plain_entry 8]
   \<and> Leader (client_answering [plain_entry 5, plain_entry 6, plain_entry 7, plain_entry 8]) ''events'' 0
       = Inr 1
   \<and> SaramaClient_Fetch config_a
        (client_answering [plain_entry 5, plain_entry 6, plain_entry 7, plain_entry 8]) ''events'' 0 7
       = ((Some (collectMessages [plain_entry 7, plain_entry 8] ''events'' 0), None), [])"
proof -
  let ?b = "[plain_entry 5, plain_entry 6, plain_entry 7, plain_entry 8]"
  note t = Fetch_offset_correction [of ?b 7 "client_answering ?b" "''events''" 0 1 config_a
      "''events''" 0]
  have s: "sorted_wrt (\<lambda>a b. blk_Offset a \<le>s blk_Offset b) ?b"
    by (simp add: blk_Offset_plain_entry)
  have d: "dropWhile (\<lambda>v. blk_Offset v <s 7) ?b = [plain_entry 7, plain_entry 8]"
    by (simp add: blk_Offset_plain_entry)
  have l: "Leader (client_answering ?b) ''events'' 0 = Inr 1"
    by (simp add: client_answering_def)
  have h: "Leader (client_answering ?b) ''events'' 0 = Inr 1
        \<and> Broker_Fetch (client_answering ?b) 1 (Clientid config_a)
              (fetchRequest_of config_a ''events'' 0 7)
            = Inr (Some \<lparr>Blocks = [(''events'', [(0, \<lparr>Err = ErrNoError, MsgSet = ?b\<rparr>)])]\<rparr>)
        \<and> ?b \<noteq> []"
    by (simp add: client_answering_def)
  have f: "filterPartitionData ?b 7 = filter (\<lambda>v. \<not> blk_Offset v <s 7) ?b"
    by (rule mp [OF conjunct1 [OF conjunct2 [OF t]] s])
  have e: "filterPartitionData ?b 7 = [plain_entry 7, plain_entry 8]"
    using conjunct1 [OF t] d by simp
  have g: "SaramaClient_Fetch config_a (client_answering ?b) ''events'' 0 7
       = ((Some (collectMessages [plain_entry 7, plain_entry 8] ''events'' 0), None), [])"
    using mp [OF conjunct1 [OF conjunct2 [OF conjunct2 [OF t]]] h] d by simp
  from s f e l g show ?thesis by (intro conjI)
qed

text \<open>
  On a batch that is not in offset order the loop stops at the first entry that is not
  below the requested offset: with offsets 7, 5 and 7 requested, the entry at 5 stays
  and \<open>Fetch\<close> returns it.
\<close>

theorem Fetch_unsorted_batch_counterexample:
  "blk_Offset (plain_entry 5) <s 7
   \<and> filterPartitionData [plain_entry 7, plain_entry 5] 7 = [plain_entry 7, plain_entry 5]
   \<and> SaramaClient_Fetch config_a (client_answering [plain_entry 7, plain_entry 5]) ''events'' 0 7
       = ((Some [plain_record 7 ''events'' 0, plain_record 5 ''events'' 0], None), [])"
  by (simp add: Fetch_client_answering filterPartitionData_dropWhile blk_Offset_plain_entry
      collectMessages_concat spec_unwrap_plain)

text \<open>
  Claim C5: \<open>collectMessages\<close> turns each entry into the records that the specification
  names (an entry wrapping an inner batch: one record per inner entry with the inner
  entry's offset, key and value; any other entry: one record with its own), in batch
  order. \<open>Fetch\<close> applies it to the batch after offset correction. A wrapper whose inner
  batch has the offsets 10, 11, 12 gives three flat records with those offsets.
\<close>

theorem collectMessages_unwraps:
  "collectMessages vs t p = concat (map (\<lambda>entry. spec_unwrap_entry entry t p) vs)
   \<and> (Leader client topic pid = Inr leader
        \<and> Broker_Fetch client leader (Clientid config) (fetchRequest_of config topic pid r)
            = Inr (Some \<lparr>Blocks = [(t, [(p, \<lparr>Err = ErrNoError, MsgSet = vs\<rparr>)])]\<rparr>)
        \<and> vs \<noteq> [] \<longrightarrow>
        SaramaClient_Fetch config client topic pid r =
          ((Some (concat (map (\<lambda>entry. spec_unwrap_entry entry t p) (filterPartitionData vs r))),
            None), []))
   \<and> SaramaClient_Fetch config_a
        (client_answering [wrapper_entry 12 [plain_entry 10, plain_entry 11, plain_entry 12]])
        ''events'' 0 10
      = ((Some [plain_record 10 ''events'' 0, plain_record 11 ''events'' 0,
                plain_record 12 ''events'' 0], None), [])"
proof (intro conjI impI)
  show "collectMessages vs t p = concat (map (\<lambda>entry. spec_unwrap_entry entry t p) vs)"
    by (rule collectMessages_concat)
next
  assume "Leader client topic pid = Inr leader
        \<and> Broker_Fetch client leader (Clientid config) (fetchRequest_of config topic pid r)
            = Inr (Some \<lparr>Blocks = [(t, [(p, \<lparr>Err = ErrNoError, MsgSet = vs\<rparr>)])]\<rparr>)
        \<and> vs \<noteq> []"
  then show "SaramaClient_Fetch config client topic pid r =
          ((Some (concat (map (\<lambda>entry. spec_unwrap_entry entry t p) (filterPartitionData vs r))),
            None), [])"
    by (simp add: Fetch_single_block collectMessages_concat)
next
  show "SaramaClient_Fetch config_a
        (client_answering [wrapper_entry 12 [plain_entry 10, plain_entry 11, plain_entry 12]])
        ''events'' 0 10
      = ((Some [plain_record 10 ''events'' 0, plain_record 11 ''events'' 0,
                plain_record 12 ''events'' 0], None), [])"
    by (simp add: Fetch_client_answering filterPartitionData_dropWhile blk_Offset_wrapper_entry
        collectMessages_concat spec_unwrap_wrapper)
       (simp add: plain_entry_def plain_record_def)
qed

text \<open>The theorem on a batch of one wrapper with the inner offsets 10, 11, 12.\<close>

theorem collectMessages_unwraps_witness:
  "Leader (client_answering [wrapper_entry 12 [plain_entry 10, plain_entry 11, plain_entry 12]])
       ''events'' 0 = Inr 1
   \<and> [wrapper_entry 12 [plain_entry 10, plain_entry 11, plain_entry 12]] \<noteq> []
   \<and> SaramaClient_Fetch config_a
        (client_answering [wrapper_entry 12 [plain_entry 10, plain_entry 11, plain_entry 12]])
        ''events'' 0 10
      = ((Some (concat (map (\<lambda>entry. spec_unwrap_entry entry ''events'' 0)
                  (filterPartitionData
                     [wrapper_entry 12 [plain_entry 10, plain_entry 11, plain_entry 12]] 10))),
          None), [])"
proof -
  let ?b = "[wrapper_entry 12 [plain_entry 10, plain_entry 11, plain_entry 12]]"
  note t = collectMessages_unwraps [of ?b "''events''" 0 "client_answering ?b" "''events''" 0 1
      config_a 10]
  have l: "Leader (client_answering ?b) ''events'' 0 = Inr 1"
    by (simp add: client_answering_def)
  have n: "?b \<noteq> []" by simp
  have h: "Leader (client_answering ?b) ''events'' 0 = Inr 1
        \<and> Broker_Fetch (client_answering ?b) 1 (Clientid config_a)
              (fetchRequest_of config_a ''events'' 0 10)
            = Inr (Some \<lparr>Blocks = [(''events'', [(0, \<lparr>Err = ErrNoError, MsgSet = ?b\<rparr>)])]\<rparr>)
        \<and> ?b \<noteq> []"
    by (simp add: client_answering_def)
  have g: "SaramaClient_Fetch config_a (client_answering ?b) ''events'' 0 10
      = ((Some (concat (map (\<lambda>entry. spec_unwrap_entry entry ''events'' 0)
                  (filterPartitionData ?b 10))), None), [])"
    by (rule mp [OF conjunct1 [OF conjunct2 [OF t]] h])
  from l n g show ?thesis by (intro conjI)
qed

section \<open>The offset query of the two clients\<close>

text \<open>
  Claim C4, at an offset query that fails with the error \<open>err\<close>: \<open>SaramaClient\<close> returns
  \<open>-1\<close> with a \<open>nil\<close> error, whatever the marker, while \<open>SiestaClient\<close> hands on the
  connector's pair with the error in it. Both turn the marker \<open>''smallest''\<close> into the
  earliest-time constant of their library and any other marker into the latest-time one.
\<close>

theorem SaramaClient_GetAvailableOffset_drops_error:
  "SaramaClient_GetAvailableOffset (client\<lparr>GetOffset := (\<lambda>t p time. Inl err)\<rparr>) topic pid marker
     = (- 1, None)
   \<and> SiestaClient_GetAvailableOffset
        \<lparr>Connector_GetAvailableOffset = (\<lambda>t p time. (v, Some err))\<rparr> topic pid marker
     = (v, Some err)
   \<and> SaramaClient_GetAvailableOffset
        (client\<lparr>GetOffset := (\<lambda>t p time. Inr (if time = EarliestOffset then 0 else 9))\<rparr>)
        topic pid marker
     = (if marker = ''smallest'' then 0 else 9, None)
   \<and> SiestaClient_GetAvailableOffset
        \<lparr>Connector_GetAvailableOffset =
           (\<lambda>t p time. (if time = EarliestTime then 0 else 9, None))\<rparr> topic pid marker
     = (if marker = ''smallest'' then 0 else 9, None)"
  by (simp add: SaramaClient_GetAvailableOffset_def SiestaClient_GetAvailableOffset_def)

section \<open>The Avro wire codec\<close>










lemma NewKafkaAvroEncoder_registry_a: "NewKafkaAvroEncoder registry_a = Inr encoder_a"
  by (simp add: NewKafkaAvroEncoder_def createPrimitiveSchema_def ParseSchema_type_def encoder_a_def)

lemma NewKafkaAvroEncoder_schemas:
  assumes "NewKafkaAvroEncoder registry = Inr enc"
  shows "primitiveSchemas enc ''Null'' = Some NullSchema"
    and "primitiveSchemas enc ''Boolean'' = Some BooleanSchema"
    and "primitiveSchemas enc ''Int'' = Some IntSchema"
    and "primitiveSchemas enc ''Long'' = Some LongSchema"
    and "primitiveSchemas enc ''Float'' = Some FloatSchema"
    and "primitiveSchemas enc ''Double'' = Some DoubleSchema"
    and "primitiveSchemas enc ''String'' = Some StringSchema"
    and "primitiveSchemas enc ''Bytes'' = Some BytesSchema"
  using assms
  by (auto simp add: NewKafkaAvroEncoder_def createPrimitiveSchema_def ParseSchema_type_def)

lemma Encode_not_record:
  "\<not> is_GenericRecord obj \<Longrightarrow>
   Encode lib this obj = (Inr (None, Some (Error ''*GenericRecord is expected'')), [])"
  by (cases obj) simp_all


lemma Decode_bad_magic:
  "b0 \<noteq> 0 \<Longrightarrow>
   Decode lib this (Some (b0 # rest)) = (Inr (VNil, Some (Error ''Unknown magic byte!'')), [])"
  by simp

lemma Decode_short:
  "length rest < 4 \<Longrightarrow> Decode lib this (Some (0 # rest)) = (Inl IndexOutOfRange, [])"
  by (simp add: Uint32_def)

lemma Decode_calls:
  assumes "snd (Decode lib this input) \<noteq> []"
  shows "\<exists>rest schemaId. input = Some (0 # rest) \<and> Uint32 rest = Inr schemaId
           \<and> snd (Decode lib this input) = [Call_GetByID schemaId]"
proof (cases input)
  case None
  then show ?thesis using assms by simp
next
  case (Some bs)
  show ?thesis
  proof (cases bs)
    case Nil
    then show ?thesis using assms Some by simp
  next
    case (Cons b0 rest)
    then show ?thesis using assms Some
      by (auto split: if_splits sum.splits option.splits)
  qed
qed

lemma Decode_long_no_index_panic:
  assumes "5 \<le> length bs"
  shows "fst (Decode lib this (Some bs)) \<noteq> Inl IndexOutOfRange"
proof (cases bs)
  case Nil
  then show ?thesis using assms by simp
next
  case (Cons b0 rest)
  then have "\<not> length rest < 4" using assms by simp
  then show ?thesis using Cons
    by (auto simp: Uint32_def split: if_splits sum.splits option.splits)
qed




text \<open>
  Claim C7: on an input that is not nil and whose first byte is not 0, \<open>Decode\<close> returns
  the error \<open>Unknown magic byte!\<close> and has made no call to the registry. Whenever
  \<open>Decode\<close> has called the registry, the input began with the byte 0 and the call is the
  one \<open>GetByID\<close> for the id read from the next 4 bytes.
\<close>

theorem Decode_unknown_magic_byte:
  "(b0 \<noteq> 0 \<longrightarrow>
      Decode lib this (Some (b0 # rest)) = (Inr (VNil, Some (Error ''Unknown magic byte!'')), []))
   \<and> (snd (Decode lib this input) \<noteq> [] \<longrightarrow>
        (\<exists>rest' schemaId. input = Some (0 # rest') \<and> Uint32 rest' = Inr schemaId
            \<and> snd (Decode lib this input) = [Call_GetByID schemaId]))"
  using Decode_bad_magic Decode_calls by (intro conjI impI)

text \<open>The theorem on an input with the first byte 1, and on the encoded \<open>User\<close> record.\<close>

theorem Decode_unknown_magic_byte_witness:
  "(1 :: byte) \<noteq> 0
   \<and> Decode avro_a decoder_a (Some [1, 0, 0, 0, 1, 9])
       = (Inr (VNil, Some (Error ''Unknown magic byte!'')), [])
   \<and> snd (Decode avro_a decoder_a (Some ([0, 0, 0, 0, 1] @ alice_payload))) \<noteq> []
   \<and> (\<exists>rest' schemaId. Some ([0, 0, 0, 0, 1] @ alice_payload) = Some (0 # rest')
         \<and> Uint32 rest' = Inr schemaId
         \<and> snd (Decode avro_a decoder_a (Some ([0, 0, 0, 0, 1] @ alice_payload)))
             = [Call_GetByID schemaId])"
proof -
  note t = Decode_unknown_magic_byte [of 1 avro_a decoder_a "[0, 0, 0, 1, 9]"
      "Some ([0, 0, 0, 0, 1] @ alice_payload)"]
  have a: "(1 :: byte) \<noteq> 0" by simp
  have b: "snd (Decode avro_a decoder_a (Some ([0, 0, 0, 0, 1] @ alice_payload))) \<noteq> []"
    by (simp add: Uint32_def alice_payload_def decoder_a_def NewKafkaAvroDecoder_def
        registry_a_def user_schema_def avro_a_def)
  from a mp [OF conjunct1 [OF t] a] b mp [OF conjunct2 [OF t] b] show ?thesis
    by (intro conjI)
qed

text \<open>
  Claim C10, for what \<open>Decode\<close> does on short inputs: the nil input gives \<open>(nil, nil)\<close>;
  an empty input that is not nil panics at the read of byte 0; an input of 1 to 4 bytes
  whose first byte is 0 panics at the read of the 4-byte id; an input whose first byte is
  not 0 gets the error \<open>Unknown magic byte!\<close> at any length from 1 on; an input of 5 bytes
  or more has no read out of bounds.
\<close>

theorem Decode_short_input:
  "Decode lib this None = (Inr (VNil, None), [])
   \<and> Decode lib this (Some []) = (Inl IndexOutOfRange, [])
   \<and> (length rest < 4 \<longrightarrow> Decode lib this (Some (0 # rest)) = (Inl IndexOutOfRange, []))
   \<and> (b0 \<noteq> 0 \<longrightarrow>
        Decode lib this (Some (b0 # rest)) = (Inr (VNil, Some (Error ''Unknown magic byte!'')), []))
   \<and> (5 \<le> length bs \<longrightarrow> fst (Decode lib this (Some bs)) \<noteq> Inl IndexOutOfRange)"
  using Decode_short Decode_bad_magic Decode_long_no_index_panic by (intro conjI impI) simp_all

text \<open>The theorem on inputs of 3 and of 5 bytes.\<close>

theorem Decode_short_input_witness:
  "length [0 :: byte, 0] < 4
   \<and> Decode avro_a decoder_a (Some [0, 0, 0]) = (Inl IndexOutOfRange, [])
   \<and> (7 :: byte) \<noteq> 0
   \<and> Decode avro_a decoder_a (Some [7, 0, 0]) = (Inr (VNil, Some (Error ''Unknown magic byte!'')), [])
   \<and> 5 \<le> length [0 :: byte, 0, 0, 0, 2]
   \<and> fst (Decode avro_a decoder_a (Some [0, 0, 0, 0, 2])) \<noteq> Inl IndexOutOfRange"
proof -
  note t = Decode_short_input [of avro_a decoder_a "[0, 0]" 7 "[0, 0, 0, 0, 2]"]
  have a: "length [0 :: byte, 0] < 4" by simp
  have b: "(7 :: byte) \<noteq> 0" by simp
  have c: "5 \<le> length [0 :: byte, 0, 0, 0, 2]" by simp
  from a mp [OF conjunct1 [OF conjunct2 [OF conjunct2 [OF t]]] a]
       b mp [OF conjunct1 [OF conjunct2 [OF conjunct2 [OF conjunct2 [OF t]]]] b]
       c mp [OF conjunct2 [OF conjunct2 [OF conjunct2 [OF conjunct2 [OF t]]]] c]
  show ?thesis by (intro conjI)
qed

text \<open>
  The input of the one byte 1 has a length between 1 and 4, and \<open>Decode\<close> returns an error
  value for it: the test of the magic byte comes before the read of the id.
\<close>

theorem Decode_short_nonzero_first_byte_counterexample:
  "length [1 :: byte] = 1
   \<and> Decode avro_a decoder_a (Some [1]) = (Inr (VNil, Some (Error ''Unknown magic byte!'')), [])"
  by simp

text \<open>
  Claim C9: \<open>Encode\<close> returns \<open>(nil, nil)\<close> for the nil record; for any value whose
  dynamic type is not \<open>*GenericRecord\<close> (the untyped \<open>nil\<close> included) it returns the error
  \<open>*GenericRecord is expected\<close>, without a panic and without a call to the registry. The
  helper \<open>getSchema\<close> of an encoder built by \<open>NewKafkaAvroEncoder\<close> does give a schema for
  each of the 8 primitive kinds.
\<close>

theorem Encode_accepts_only_records:
  "Encode lib this (VRecord None) = (Inr (None, None), [])
   \<and> (\<not> is_GenericRecord obj \<longrightarrow>
        Encode lib this obj = (Inr (None, Some (Error ''*GenericRecord is expected'')), []))
   \<and> (NewKafkaAvroEncoder registry = Inr enc \<longrightarrow>
        getSchema enc VNil = Inr (Some NullSchema)
        \<and> getSchema enc (VBool b) = Inr (Some BooleanSchema)
        \<and> getSchema enc (VInt32 i) = Inr (Some IntSchema)
        \<and> getSchema enc (VInt64 l) = Inr (Some LongSchema)
        \<and> getSchema enc (VFloat32 f) = Inr (Some FloatSchema)
        \<and> getSchema enc (VFloat64 d) = Inr (Some DoubleSchema)
        \<and> getSchema enc (VString str) = Inr (Some StringSchema)
        \<and> getSchema enc (VBytes bs) = Inr (Some BytesSchema))"
proof (intro conjI impI)
  show "Encode lib this (VRecord None) = (Inr (None, None), [])" by simp
next
  assume "\<not> is_GenericRecord obj"
  then show "Encode lib this obj = (Inr (None, Some (Error ''*GenericRecord is expected'')), [])"
    by (rule Encode_not_record)
qed (simp_all add: NewKafkaAvroEncoder_schemas)

text \<open>The theorem on a string value, with the encoder built for the sample registry.\<close>

theorem Encode_accepts_only_records_witness:
  "\<not> is_GenericRecord (VString ''alice'')
   \<and> Encode avro_a encoder_a (VString ''alice'')
       = (Inr (None, Some (Error ''*GenericRecord is expected'')), [])
   \<and> NewKafkaAvroEncoder registry_a = Inr encoder_a
   \<and> getSchema encoder_a (VString ''alice'') = Inr (Some StringSchema)
   \<and> getSchema encoder_a (VBytes (Some [1])) = Inr (Some BytesSchema)"
proof -
  note t = Encode_accepts_only_records [of avro_a encoder_a "VString ''alice''" registry_a
      encoder_a True 0 0 0 0 "''alice''" "Some [1]"]
  have a: "\<not> is_GenericRecord (VString ''alice'')" by simp
  have b: "NewKafkaAvroEncoder registry_a = Inr encoder_a"
    by (rule NewKafkaAvroEncoder_registry_a)
  note u = mp [OF conjunct2 [OF conjunct2 [OF t]] b]
  from a mp [OF conjunct1 [OF conjunct2 [OF t]] a] b
    conjunct1 [OF conjunct2 [OF conjunct2 [OF conjunct2 [OF conjunct2 [OF conjunct2 [OF conjunct2 [OF u]]]]]]]
    conjunct2 [OF conjunct2 [OF conjunct2 [OF conjunct2 [OF conjunct2 [OF conjunct2 [OF conjunct2 [OF u]]]]]]]
  show ?thesis by (intro conjI)
qed










end
